theory Spec2Isabelle
  imports Complex_Main "HOL-Library.Char_ord" "HOL-Library.List_Lexorder"
begin

section \<open>Python values used by health\_bot.py\<close>

text \<open>
  A Python \<open>str\<close> is modelled as a list of characters, one \<open>char\<close> per code point;
  the model covers the code points up to U+00FF (the degree sign of the fever advisory is
  \<open>CHR 0xB0\<close>). The colour escape sequences of colorama, which only wrap the printed
  texts, are left out of the printed strings.
\<close>

datatype py_exn =
    ValueError
  | IndexError
  | KeyError
  | EOFError
  | FileNotFoundError
  | SystemExit int

text \<open>The exit status of the interpreter when the exception is not caught.\<close>

fun exit_code :: "py_exn \<Rightarrow> int" where
  "exit_code (SystemExit c) = c"
| "exit_code _ = 1"

subsection \<open>\<open>int(str)\<close>\<close>

text \<open>
  \<open>int(s)\<close> in base 10: white space around the number is dropped, one sign is allowed,
  then decimal digits, where single underscores may stand between digits. Among the
  code points up to U+00FF the white space of \<open>int\<close> is TAB, LF, VT, FF, CR, space,
  U+0085 and U+00A0, and the decimal digits are \<open>0\<close> to \<open>9\<close>. Anything else raises
  \<open>ValueError\<close>, here \<open>None\<close>. The limit that Python 3.11 puts on the number of digits
  (4300) is not modelled.
\<close>

definition is_space :: "char \<Rightarrow> bool" where
  "is_space c \<longleftrightarrow>
     c \<in> set [CHR 0x09, CHR 0x0A, CHR 0x0B, CHR 0x0C, CHR 0x0D, CHR 0x20, CHR 0x85, CHR 0xA0]"

definition is_digit :: "char \<Rightarrow> bool" where
  "is_digit c \<longleftrightarrow> c \<in> set ''0123456789''"

definition digit_val :: "char \<Rightarrow> nat" where
  "digit_val c = of_char c - 48"

definition strip :: "string \<Rightarrow> string" where
  "strip s = rev (dropWhile is_space (rev (dropWhile is_space s)))"

fun parse_digits :: "nat \<Rightarrow> bool \<Rightarrow> string \<Rightarrow> nat option" where
  "parse_digits acc after_digit [] = (if after_digit then Some acc else None)"
| "parse_digits acc after_digit (c # cs) =
     (if is_digit c then parse_digits (10 * acc + digit_val c) True cs
      else if c = CHR ''_'' \<and> after_digit then parse_digits acc False cs
      else None)"

definition py_int :: "string \<Rightarrow> int option" where
  "py_int s =
     (case strip s of
        [] \<Rightarrow> None
      | c # cs \<Rightarrow>
          if c = CHR ''-'' then map_option (\<lambda>n. - int n) (parse_digits 0 False cs)
          else if c = CHR ''+'' then map_option int (parse_digits 0 False cs)
          else map_option int (parse_digits 0 False (c # cs)))"

subsection \<open>List indexing, \<open>str(n)\<close>, \<open>join\<close>\<close>

text \<open>
  \<open>xs[i]\<close>: an index from \<open>-len(xs)\<close> to \<open>-1\<close> counts from the end of the list; an
  index outside \<open>-len(xs) .. len(xs) - 1\<close> raises \<open>IndexError\<close>.
\<close>

definition py_getitem :: "'a list \<Rightarrow> int \<Rightarrow> py_exn + 'a" where
  "py_getitem xs i =
     (if 0 \<le> i \<and> i < int (length xs) then Inr (xs ! nat i)
      else if i < 0 \<and> - int (length xs) \<le> i then Inr (xs ! nat (int (length xs) + i))
      else Inl IndexError)"

definition digit_char :: "nat \<Rightarrow> char" where
  "digit_char d = ''0123456789'' ! d"

fun str_nat :: "nat \<Rightarrow> string" where
  "str_nat n = (if n < 10 then [digit_char n] else str_nat (n div 10) @ [digit_char (n mod 10)])"

declare str_nat.simps [simp del]

fun join :: "string \<Rightarrow> string list \<Rightarrow> string" where
  "join sep [] = []"
| "join sep [x] = x"
| "join sep (x # y # ys) = x @ sep @ join sep (y # ys)"

fun enumerate_from :: "nat \<Rightarrow> 'a list \<Rightarrow> (nat \<times> 'a) list" where
  "enumerate_from i [] = []"
| "enumerate_from i (x # xs) = (i, x) # enumerate_from (Suc i) xs"

subsection \<open>\<open>datetime.now().strftime('%Y-%m-%d %H:%M:%S')\<close>\<close>

record datetime =
  year :: nat
  month :: nat
  day :: nat
  hour :: nat
  minute :: nat
  second :: nat

text \<open>
  \<open>%m\<close>, \<open>%d\<close>, \<open>%H\<close>, \<open>%M\<close> and \<open>%S\<close> are two digits, zero padded; \<open>%Y\<close> is the year in
  decimal (four digits from the year 1000 on).
\<close>

definition pad2 :: "nat \<Rightarrow> string" where
  "pad2 n = (if n < 10 then CHR ''0'' # str_nat n else str_nat n)"

definition strftime :: "datetime \<Rightarrow> string" where
  "strftime t =
     str_nat (year t) @ ''-'' @ pad2 (month t) @ ''-'' @ pad2 (day t) @ '' '' @
     pad2 (hour t) @ '':'' @ pad2 (minute t) @ '':'' @ pad2 (second t)"

section \<open>The two stores, the terminal and the bot\<close>

text \<open>
  An entry of \<open>symptoms_db.json\<close>; its key \<open>"severity"\<close> is the field \<open>severity_level\<close>
  here, since \<open>severity\<close> is also a column of the log. The database is a dict in
  insertion order, which is the order \<open>json.load\<close> and \<open>keys()\<close> give.
\<close>

record symptom_info =
  remedies :: "string list"
  severity_level :: string
  seek_medical_attention :: string

type_synonym db = "(string \<times> symptom_info) list"

text \<open>
  A row of \<open>health_log.csv\<close>, with the columns of the header written by
  \<open>initialize_files\<close>. The file is modelled as the sequence of its rows, each cell
  holding its text: \<open>to_csv\<close> stores the rows of the frame and \<open>read_csv\<close> gives them
  back. What \<open>read_csv\<close> makes of the texts of a column when it infers the type of the
  column is modelled where the program computes with it, in \<open>get_insights\<close>, and only
  there: that pandas writes a number it has read in its own notation (\<open>03\<close> comes back
  as \<open>3\<close>) and reads some texts as missing values is not part of the model.
\<close>

record log_row =
  date :: string
  symptoms :: string
  severity :: string
  remedies_suggested :: string

text \<open>
  What the terminal shows: a printed line, the prompt of an \<open>input\<close> call, or the table
  printed by \<open>view_history\<close>.
\<close>

datatype event = Print string | Prompt string | PrintFrame "log_row list"

text \<open>
  A line typed by the user, with the reading of the clock when the program goes on after
  it: \<open>log_symptoms\<close> calls \<open>datetime.now()\<close> right after the severity line.
\<close>

type_synonym line = "string \<times> datetime"

text \<open>
  The world of the process: the two files (\<open>None\<close> when the file does not exist), the
  lines still to be read from standard input, and what has been written to the terminal.
\<close>

record world =
  health_log_file :: "log_row list option"
  symptoms_db_file :: "db option"
  stdin :: "line list"
  stdout :: "event list"

record health_bot =
  symptoms_db :: db

definition print :: "string \<Rightarrow> world \<Rightarrow> world" where
  "print msg w = w\<lparr>stdout := stdout w @ [Print msg]\<rparr>"

text \<open>\<open>print(df.to_string(index=False))\<close>: the table of the rows.\<close>

definition print_frame :: "log_row list \<Rightarrow> world \<Rightarrow> world" where
  "print_frame df w = w\<lparr>stdout := stdout w @ [PrintFrame df]\<rparr>"

text \<open>\<open>input(prompt)\<close> shows the prompt and raises \<open>EOFError\<close> at the end of the input.\<close>

definition py_input :: "string \<Rightarrow> world \<Rightarrow> (py_exn + line) \<times> world" where
  "py_input prompt w =
     (case stdin w of
        [] \<Rightarrow> (Inl EOFError, w\<lparr>stdout := stdout w @ [Prompt prompt]\<rparr>)
      | l # ls \<Rightarrow> (Inr l, w\<lparr>stdin := ls, stdout := stdout w @ [Prompt prompt]\<rparr>))"

section \<open>HealthBot\<close>

definition default_symptoms_db :: db where
  "default_symptoms_db =
     [(''fever'',
       \<lparr>remedies = [''Rest well'', ''Stay hydrated'', ''Take paracetamol if temperature is high''],
        severity_level = ''medium'',
        seek_medical_attention =
          ''If temperature exceeds 102'' @ [CHR 0xB0] @ ''F or persists for more than 3 days''\<rparr>),
      (''headache'',
       \<lparr>remedies = [''Rest in a quiet, dark room'', ''Stay hydrated'', ''Try mild pain relievers''],
        severity_level = ''low'',
        seek_medical_attention = ''If severe and persistent for more than 24 hours''\<rparr>),
      (''cold'',
       \<lparr>remedies = [''Rest'', ''Drink warm fluids'', ''Steam inhalation''],
        severity_level = ''low'',
        seek_medical_attention = ''If symptoms worsen after 7 days''\<rparr>),
      (''stomach_ache'',
       \<lparr>remedies = [''Avoid heavy foods'', ''Try ginger tea'', ''Stay hydrated''],
        severity_level = ''medium'',
        seek_medical_attention = ''If severe pain or accompanied by vomiting''\<rparr>)]"

definition initialize_files :: "world \<Rightarrow> world" where
  "initialize_files w =
     (let w1 = (if health_log_file w = None then w\<lparr>health_log_file := Some []\<rparr> else w)
      in if symptoms_db_file w1 = None
         then w1\<lparr>symptoms_db_file := Some default_symptoms_db\<rparr>
         else w1)"

definition load_symptoms_database :: "world \<Rightarrow> py_exn + health_bot" where
  "load_symptoms_database w =
     (case symptoms_db_file w of
        None \<Rightarrow> Inl FileNotFoundError
      | Some d \<Rightarrow> Inr \<lparr>symptoms_db = d\<rparr>)"

definition init :: "world \<Rightarrow> (py_exn + health_bot) \<times> world" where
  "init w = (let w1 = initialize_files w in (load_symptoms_database w1, w1))"

definition display_menu :: "world \<Rightarrow> (py_exn + line) \<times> world" where
  "display_menu w =
     py_input (CHR 0x0A # ''Choose an option (1-5): '')
       (print ''5. Exit''
         (print ''4. Learn About Seasonal Illnesses''
           (print ''3. Get Health Insights''
             (print ''2. View Health History''
               (print ''1. Log New Symptoms''
                 (print (CHR 0x0A # ''=== Health Alert Bot ==='') w))))))"

definition invalid_choice :: string where
  "invalid_choice = ''Invalid choice. Please try again.''"

text \<open>
  A method either returns (\<open>None\<close>) or stops the run: an exception leaves it, or it
  reaches a computation of pandas that this model does not cover (\<open>get_insights\<close> on a
  severity column that is not a column of integers).
\<close>

datatype stop = Raised py_exn | Not_Modelled

text \<open>
  \<open>log_symptoms\<close>. The result is what stops the method, if anything, and the world at
  that point. Only the \<open>ValueError\<close> and \<open>IndexError\<close> of the two statements in the
  \<open>try\<close> block are caught.
\<close>

definition log_symptoms :: "health_bot \<Rightarrow> world \<Rightarrow> stop option \<times> world" where
  "log_symptoms self w =
     (let names = map fst (symptoms_db self);
          w1 = print (CHR 0x0A # ''Available Symptoms:'') w;
          w2 = fold (\<lambda>(i, symptom). print (str_nat i @ ''. '' @ symptom))
                 (enumerate_from 1 names) w1
      in case py_input (CHR 0x0A # ''Enter symptom number: '') w2 of
           (Inl e, w3) \<Rightarrow> (Some (Raised e), w3)
         | (Inr (answer, _), w3) \<Rightarrow>
         (case py_int answer of
            None \<Rightarrow> (None, print invalid_choice w3)
          | Some choice \<Rightarrow>
          (case py_getitem names (choice - 1) of
             Inl _ \<Rightarrow> (None, print invalid_choice w3)
           | Inr symptom \<Rightarrow>
           (case py_input ''Rate severity (1-5, where 5 is most severe): '' w3 of
              (Inl e, w4) \<Rightarrow> (Some (Raised e), w4)
            | (Inr (severity_text, now), w4) \<Rightarrow>
            (case map_of (symptoms_db self) symptom of
               None \<Rightarrow> (Some (Raised KeyError), w4)
             | Some info \<Rightarrow>
             (case health_log_file w4 of
                None \<Rightarrow> (Some (Raised FileNotFoundError), w4)
              | Some df \<Rightarrow>
                  let new_entry =
                        \<lparr>date = strftime now,
                         symptoms = symptom,
                         severity = severity_text,
                         remedies_suggested = join ''; '' (remedies info)\<rparr>;
                      w5 = w4\<lparr>health_log_file := Some (df @ [new_entry])\<rparr>;
                      w6 = print (CHR 0x0A # ''Suggested Remedies:'') w5;
                      w7 = fold (\<lambda>remedy. print (''- '' @ remedy)) (remedies info) w6
                  in case py_int severity_text of
                       None \<Rightarrow> (Some (Raised ValueError), w7)
                     | Some n \<Rightarrow>
                         if n \<ge> 4
                         then (None,
                               print (seek_medical_attention info)
                                 (print (CHR 0x0A # ''MEDICAL ATTENTION ADVISED:'') w7))
                         else (None, w7)))))))"

definition view_history :: "world \<Rightarrow> stop option \<times> world" where
  "view_history w =
     (case health_log_file w of
        None \<Rightarrow> (None, print ''No health history found.'' w)
      | Some df \<Rightarrow>
          if df = [] then (None, print ''No entries in health log yet.'' w)
          else (None, print_frame df (print (CHR 0x0A # ''Your Health History:'') w)))"

subsection \<open>The two aggregations of \<open>get_insights\<close>\<close>

text \<open>
  \<open>df['symptoms'].value_counts()\<close>: the distinct values in the order of their first
  occurrence, each with its number of occurrences, sorted by descending count. The
  sort is taken to be stable, so that equal counts stay in first-seen order.
\<close>

definition unique :: "'a list \<Rightarrow> 'a list" where
  "unique xs = rev (remdups (rev xs))"

definition value_counts :: "string list \<Rightarrow> (string \<times> nat) list" where
  "value_counts xs =
     sort_key (\<lambda>(x, c). - int c) (map (\<lambda>x. (x, count_list xs x)) (unique xs))"

text \<open>
  A cell that \<open>read_csv\<close> reads as a 64-bit integer: decimal digits, with a minus sign
  before them or none. The severity column is a column of integers when every cell is
  one. Cells in another notation (a plus sign, blanks around the digits) are left to the
  part that is not modelled.
\<close>

fun csv_digits :: "nat \<Rightarrow> string \<Rightarrow> nat" where
  "csv_digits acc [] = acc"
| "csv_digits acc (c # cs) = csv_digits (10 * acc + digit_val c) cs"

definition csv_int :: "string \<Rightarrow> int option" where
  "csv_int s =
     (let (neg, ds) = (case s of
                         [] \<Rightarrow> (False, [])
                       | c # cs \<Rightarrow> if c = CHR ''-'' then (True, cs) else (False, c # cs));
          v = (if neg then - int (csv_digits 0 ds) else int (csv_digits 0 ds))
      in if ds \<noteq> [] \<and> list_all is_digit ds \<and> - (2 ^ 63) \<le> v \<and> v < 2 ^ 63
         then Some v else None)"

definition severity_column :: "log_row list \<Rightarrow> int list option" where
  "severity_column df = those (map (\<lambda>row. csv_int (severity row)) df)"

text \<open>
  A finite 64-bit float, as mantissa and binary exponent: \<open>Float64 m k\<close> is \<open>m * 2 ^ k\<close>.
  \<open>float_div p q\<close> is the float nearest to \<open>p / q\<close>, ties to the even mantissa (53
  bits); dividing by zero gives no number (\<open>None\<close>). The exponent range of the format is
  not modelled: it is never left for \<open>p\<close> and \<open>q\<close> below \<open>2 ^ 1000\<close>.
\<close>

datatype float64 = Float64 int int


fun bitlen :: "nat \<Rightarrow> nat" where
  "bitlen n = (if n = 0 then 0 else Suc (bitlen (n div 2)))"

declare bitlen.simps [simp del]

text \<open>\<open>n / d\<close> rounded to the nearest integer, ties to even, for \<open>d > 0\<close>.\<close>

definition rnd_div :: "int \<Rightarrow> int \<Rightarrow> int" where
  "rnd_div n d =
     (let f = n div d; r = n mod d
      in if 2 * r < d then f
         else if 2 * r > d then f + 1
         else if even f then f else f + 1)"

definition binade :: "nat \<Rightarrow> nat \<Rightarrow> int" where
  "binade p q =
     (let a = int (bitlen p) - int (bitlen q)
      in if (if 0 \<le> a then q * 2 ^ nat a \<le> p else q \<le> p * 2 ^ nat (- a)) then a else a - 1)"

definition float_div :: "int \<Rightarrow> nat \<Rightarrow> float64 option" where
  "float_div p q =
     (if q = 0 then None
      else if p = 0 then Some (Float64 0 0)
      else let k = binade (nat \<bar>p\<bar>) q - 52
           in Some (Float64 (if 0 \<le> k then rnd_div p (int q * 2 ^ nat k)
                             else rnd_div (p * 2 ^ nat (- k)) (int q)) k))"

text \<open>
  \<open>f"{x:.1f}"\<close>: the value rounded to one decimal, ties to even, with the sign of \<open>x\<close>;
  \<open>nan\<close> for no number.
\<close>

definition tenths :: "float64 \<Rightarrow> nat" where
  "tenths f =
     (case f of Float64 m k \<Rightarrow>
        nat (if 0 \<le> k then 10 * \<bar>m\<bar> * 2 ^ nat k else rnd_div (10 * \<bar>m\<bar>) (2 ^ nat (- k))))"

definition sign_text :: "float64 \<Rightarrow> string" where
  "sign_text f = (case f of Float64 m k \<Rightarrow> if m < 0 then ''-'' else [])"

definition format_1f :: "float64 option \<Rightarrow> string" where
  "format_1f x =
     (case x of
        None \<Rightarrow> ''nan''
      | Some f \<Rightarrow> sign_text f @ str_nat (tenths f div 10) @ ''.'' @ str_nat (tenths f mod 10))"

text \<open>
  \<open>df.groupby('symptoms')['severity'].mean()\<close> on a column of integers: the groups in
  sorted order of their key, each with the mean of its ratings. pandas adds the
  ratings up as floats; the sum is the exact one when the absolute values of the column
  add up to at most \<open>2 ^ 53\<close>, and only then the model gives a result.
\<close>

definition exactly_summable :: "int list \<Rightarrow> bool" where
  "exactly_summable vs \<longleftrightarrow> sum_list (map abs vs) \<le> 2 ^ 53"

definition mean :: "int list \<Rightarrow> float64 option" where
  "mean vs = float_div (sum_list vs) (length vs)"

definition group :: "(string \<times> int) list \<Rightarrow> string \<Rightarrow> int list" where
  "group kvs key = map snd (filter (\<lambda>(k, v). k = key) kvs)"

definition avg_severity :: "log_row list \<Rightarrow> (string \<times> float64 option) list option" where
  "avg_severity df =
     (case severity_column df of
        None \<Rightarrow> None
      | Some sev \<Rightarrow>
          if exactly_summable sev
          then Some (map (\<lambda>key. (key, mean (group (zip (map symptoms df) sev) key)))
                       (sort (remdups (map symptoms df))))
          else None)"

definition get_insights :: "world \<Rightarrow> stop option \<times> world" where
  "get_insights w =
     (case health_log_file w of
        None \<Rightarrow> (None, print ''No data available for insights.'' w)
      | Some df \<Rightarrow>
          if df = [] then (None, print ''No entries to analyze yet.'' w)
          else
            let w1 = print (CHR 0x0A # ''Health Insights:'') w;
                common_symptoms = value_counts (map symptoms df);
                w2 = print (CHR 0x0A # ''Most Common Symptoms:'') w1;
                w3 = fold (\<lambda>(symptom, count).
                             print (''- '' @ symptom @ '': '' @ str_nat count @ '' times''))
                       common_symptoms w2
            in case avg_severity df of
                 None \<Rightarrow> (Some Not_Modelled, w3)
               | Some avg \<Rightarrow>
                   (None,
                    fold (\<lambda>(symptom, sev).
                            print (''- '' @ symptom @ '': '' @ format_1f sev @ ''/5''))
                      avg (print (CHR 0x0A # ''Average Severity by Symptom:'') w3)))"

definition seasonal_info :: "(string \<times> string list) list" where
  "seasonal_info =
     [(''Winter'', [''Common Cold'', ''Flu'', ''Sore Throat'']),
      (''Summer'', [''Heat Exhaustion'', ''Food Poisoning'', ''Dehydration'']),
      (''Monsoon'', [''Viral Fever'', ''Dengue'', ''Respiratory Infections''])]"

definition seasonal_illnesses :: "world \<Rightarrow> stop option \<times> world" where
  "seasonal_illnesses w =
     (None,
      fold (\<lambda>(season, illnesses) w'.
              fold (\<lambda>illness. print (''- '' @ illness)) illnesses
                (print (CHR 0x0A # season @ '':'') w'))
        seasonal_info (print (CHR 0x0A # ''Common Seasonal Illnesses:'') w))"

subsection \<open>The menu loop\<close>

text \<open>
  One pass through the body of \<open>while True\<close> in \<open>run\<close>: \<open>None\<close> when the body reaches its
  end, so that the loop goes round again. \<open>sys.exit(0)\<close> raises \<open>SystemExit(0)\<close>.
\<close>

definition dispatch :: "health_bot \<Rightarrow> string \<Rightarrow> world \<Rightarrow> stop option \<times> world" where
  "dispatch self choice w =
     (if choice = ''1'' then log_symptoms self w
      else if choice = ''2'' then view_history w
      else if choice = ''3'' then get_insights w
      else if choice = ''4'' then seasonal_illnesses w
      else if choice = ''5''
        then (Some (Raised (SystemExit 0)), print (CHR 0x0A # ''Take care! Goodbye!'') w)
      else (None, print invalid_choice w))"

definition loop_body :: "health_bot \<Rightarrow> world \<Rightarrow> stop option \<times> world" where
  "loop_body self w =
     (case display_menu w of
        (Inl e, w1) \<Rightarrow> (Some (Raised e), w1)
      | (Inr (choice, _), w1) \<Rightarrow>
          (case dispatch self choice w1 of
             (Some s, w2) \<Rightarrow> (Some s, w2)
           | (None, w2) \<Rightarrow>
               (case py_input (CHR 0x0A # ''Press Enter to continue...'') w2 of
                  (Inl e, w3) \<Rightarrow> (Some (Raised e), w3)
                | (Inr _, w3) \<Rightarrow> (None, w3))))"

text \<open>
  \<open>run\<close>: the loop goes on until something stops it. Every pass reads at least the
  line of the menu, so on a finite input the loop ends, at the latest with the
  \<open>EOFError\<close> of \<open>input\<close>.
\<close>

function run :: "health_bot \<Rightarrow> world \<Rightarrow> stop \<times> world" where
  "run self w =
     (case loop_body self w of
        (Some s, w') \<Rightarrow> (s, w')
      | (None, w') \<Rightarrow> run self w')"
  by pat_completeness auto
termination
proof (relation "measure (\<lambda>(self, w). length (stdin w))", goal_cases)
  case 1
  show ?case by simp
next
  case (2 self w r w')
  then have body: "loop_body self w = (r, w')" and r: "r = None"
    by simp_all
  have fold_stdin: "stdin (fold g xs v) = stdin v"
    if "\<And>x u. stdin (g x u) = stdin u" for g :: "'b \<Rightarrow> world \<Rightarrow> world" and xs v
    using that by (induction xs arbitrary: v) simp_all
  have input_le: "length (stdin v') \<le> length (stdin v)"
    if "py_input p v = (a, v')" for p v a v'
    using that by (auto simp: py_input_def split: list.splits)
  have input_less: "length (stdin v') < length (stdin v)"
    if "py_input p v = (Inr l, v')" for p v l v'
    using that by (auto simp: py_input_def split: list.splits)
  have log_le: "length (stdin v') \<le> length (stdin v)"
    if "log_symptoms self v = (a, v')" for v a v'
    using that
    by (auto simp: log_symptoms_def Let_def print_def fold_stdin split_def py_input_def
        split: list.splits option.splits sum.splits if_splits)
  have view_le: "stdin v' = stdin v" if "view_history v = (a, v')" for v a v'
    using that by (auto simp: view_history_def print_def print_frame_def split: option.splits if_splits)
  have insights_le: "stdin v' = stdin v" if "get_insights v = (a, v')" for v a v'
    using that
    by (auto simp: get_insights_def print_def Let_def fold_stdin split_def
        split: option.splits if_splits)
  have seasonal_le: "stdin v' = stdin v" if "seasonal_illnesses v = (a, v')" for v a v'
    using that by (auto simp: seasonal_illnesses_def print_def fold_stdin split_def)
  have dispatch_le: "length (stdin v') \<le> length (stdin v)"
    if "dispatch self c v = (a, v')" for c v a v'
    using that log_le [of v a v'] view_le [of v a v'] insights_le [of v a v']
      seasonal_le [of v a v']
    by (auto simp: dispatch_def print_def split: if_splits)
  from body r have "length (stdin w') < length (stdin w)"
    unfolding loop_body_def display_menu_def
    by (auto split: prod.splits sum.splits option.splits
        dest!: dispatch_le input_less simp: print_def)
  then show ?case
    by simp
qed

declare run.simps [simp del]

text \<open>The script: \<open>bot = HealthBot()\<close>, then \<open>bot.run()\<close>.\<close>

definition main :: "world \<Rightarrow> stop \<times> world" where
  "main w =
     (case init w of
        (Inl e, w1) \<Rightarrow> (Raised e, w1)
      | (Inr self, w1) \<Rightarrow> run self w1)"

section \<open>Notions of the specification\<close>



text \<open>What \<open>display_menu\<close> shows: the six lines of the menu and its prompt.\<close>

abbreviation menu_shown :: "event list" where
  "menu_shown \<equiv>
     [Print (CHR 0x0A # ''=== Health Alert Bot ===''), Print ''1. Log New Symptoms'',
      Print ''2. View Health History'', Print ''3. Get Health Insights'',
      Print ''4. Learn About Seasonal Illnesses'', Print ''5. Exit'',
      Prompt (CHR 0x0A # ''Choose an option (1-5): '')]"

section \<open>Basic facts\<close>

lemmas py_int_eval = py_int_def strip_def is_space_def is_digit_def digit_val_def

lemmas strftime_eval = strftime_def pad2_def str_nat.simps digit_char_def

lemma print_simps [simp]:
  "health_log_file (print m w) = health_log_file w"
  "symptoms_db_file (print m w) = symptoms_db_file w"
  "stdin (print m w) = stdin w"
  "stdout (print m w) = stdout w @ [Print m]"
  by (simp_all add: print_def)

lemma fold_print:
  "fold (\<lambda>x. print (f x)) xs w = w\<lparr>stdout := stdout w @ map (\<lambda>x. Print (f x)) xs\<rparr>"
  by (induction xs arbitrary: w) (simp_all add: print_def)

text \<open>
  The symptom prompt of \<open>log_symptoms\<close> on an answer that \<open>int\<close> rejects, or on a number
  above the length of the list or below one minus that length: the method returns
  after the error message and leaves both files as they were.
\<close>

lemma log_symptoms_abort:
  assumes "stdin w = (c, t) # rest"
    and "py_int c = None \<or>
         (\<exists>n. py_int c = Some n \<and>
              (n > int (length (symptoms_db self)) \<or> n < 1 - int (length (symptoms_db self))))"
  shows "fst (log_symptoms self w) = None"
    and "health_log_file (snd (log_symptoms self w)) = health_log_file w"
    and "symptoms_db_file (snd (log_symptoms self w)) = symptoms_db_file w"
    and "stdin (snd (log_symptoms self w)) = rest"
    and "last (stdout (snd (log_symptoms self w))) = Print invalid_choice"
  using assms
  by (auto simp: log_symptoms_def Let_def split_def fold_print py_input_def py_getitem_def)









section \<open>What the methods and the loop leave as it is\<close>

lemma print_frame_simps [simp]:
  "health_log_file (print_frame df w) = health_log_file w"
  "symptoms_db_file (print_frame df w) = symptoms_db_file w"
  "stdin (print_frame df w) = stdin w"
  "stdout (print_frame df w) = stdout w @ [PrintFrame df]"
  by (simp_all add: print_frame_def)

lemma fold_keeps:
  assumes "\<And>x u. health_log_file (g x u) = health_log_file u"
    and "\<And>x u. symptoms_db_file (g x u) = symptoms_db_file u"
    and "\<And>x u. stdin (g x u) = stdin u"
  shows "health_log_file (fold g xs w) = health_log_file w"
    and "symptoms_db_file (fold g xs w) = symptoms_db_file w"
    and "stdin (fold g xs w) = stdin w"
  using assms by (induction xs arbitrary: w) simp_all

lemma display_menu_line:
  assumes "stdin w = l # rest"
  shows "display_menu w =
           (Inr l,
            w\<lparr>stdin := rest,
              stdout := stdout w @
                [Print (CHR 0x0A # ''=== Health Alert Bot ===''), Print ''1. Log New Symptoms'',
                 Print ''2. View Health History'', Print ''3. Get Health Insights'',
                 Print ''4. Learn About Seasonal Illnesses'', Print ''5. Exit'',
                 Prompt (CHR 0x0A # ''Choose an option (1-5): '')]\<rparr>)"
  using assms by (simp add: display_menu_def py_input_def print_def)

lemma display_menu_eof:
  assumes "stdin w = []"
  shows "fst (display_menu w) = Inl EOFError"
    and "health_log_file (snd (display_menu w)) = health_log_file w"
    and "symptoms_db_file (snd (display_menu w)) = symptoms_db_file w"
    and "stdin (snd (display_menu w)) = []"
  using assms by (simp_all add: display_menu_def py_input_def)

text \<open>What the methods leave as it is.\<close>

lemma view_history_keeps:
  "fst (view_history w) = None"
  "health_log_file (snd (view_history w)) = health_log_file w"
  "symptoms_db_file (snd (view_history w)) = symptoms_db_file w"
  "stdin (snd (view_history w)) = stdin w"
  by (simp_all add: view_history_def split: option.splits)

lemma get_insights_keeps:
  "fst (get_insights w) \<noteq> Some (Raised e)"
  "health_log_file (snd (get_insights w)) = health_log_file w"
  "symptoms_db_file (snd (get_insights w)) = symptoms_db_file w"
  "stdin (snd (get_insights w)) = stdin w"
  by (simp_all add: get_insights_def Let_def split_def fold_print split: option.splits)

lemma seasonal_illnesses_keeps:
  "fst (seasonal_illnesses w) = None"
  "health_log_file (snd (seasonal_illnesses w)) = health_log_file w"
  "symptoms_db_file (snd (seasonal_illnesses w)) = symptoms_db_file w"
  "stdin (snd (seasonal_illnesses w)) = stdin w"
  by (simp_all add: seasonal_illnesses_def split_def fold_keeps fold_print)

lemma log_symptoms_keeps:
  "fst (log_symptoms self w) \<noteq> Some (Raised (SystemExit c))"
  "symptoms_db_file (snd (log_symptoms self w)) = symptoms_db_file w"
  "\<exists>pre. stdin w = pre @ stdin (snd (log_symptoms self w))"
  by (auto simp: log_symptoms_def Let_def split_def fold_print py_input_def
      split: list.splits option.splits sum.splits)

lemma log_symptoms_log:
  assumes "health_log_file w = Some df"
  shows "health_log_file (snd (log_symptoms self w)) = Some df \<or>
         (\<exists>row. health_log_file (snd (log_symptoms self w)) = Some (df @ [row]))"
  using assms
  by (auto simp: log_symptoms_def Let_def split_def fold_print py_input_def
      split: list.splits option.splits sum.splits)

lemma dispatch_keeps:
  "symptoms_db_file (snd (dispatch self choice w)) = symptoms_db_file w"
  "\<exists>pre. stdin w = pre @ stdin (snd (dispatch self choice w))"
  using log_symptoms_keeps(3) [of w self]
  by (simp_all add: dispatch_def view_history_keeps get_insights_keeps seasonal_illnesses_keeps
      log_symptoms_keeps(2))

lemma dispatch_log:
  assumes "health_log_file w = Some df"
  shows "\<exists>new. health_log_file (snd (dispatch self choice w)) = Some (df @ new)"
  using assms log_symptoms_log [OF assms, of self]
  by (auto simp: dispatch_def view_history_keeps get_insights_keeps seasonal_illnesses_keeps)

lemma dispatch_exit:
  "fst (dispatch self choice w) = Some (Raised (SystemExit c)) \<longleftrightarrow> choice = ''5'' \<and> c = 0"
  using log_symptoms_keeps(1) [of self w c] get_insights_keeps(1) [of w "SystemExit c"]
  by (auto simp: dispatch_def view_history_keeps seasonal_illnesses_keeps)

text \<open>One pass of the loop, by what the menu prompt reads and what the method does.\<close>

lemma loop_body_eof:
  assumes "stdin w = []"
  shows "fst (loop_body self w) = Some (Raised EOFError)"
    and "health_log_file (snd (loop_body self w)) = health_log_file w"
    and "symptoms_db_file (snd (loop_body self w)) = symptoms_db_file w"
    and "stdin (snd (loop_body self w)) = []"
  using assms by (simp_all add: loop_body_def display_menu_def py_input_def)

lemma loop_body_line:
  assumes "stdin w = (choice, t) # rest"
    and "display_menu w = (Inr (choice, t), w1)"
    and "dispatch self choice w1 = (r, w2)"
  shows "loop_body self w =
           (case r of
              Some s \<Rightarrow> (Some s, w2)
            | None \<Rightarrow>
                (case stdin w2 of
                   [] \<Rightarrow> (Some (Raised EOFError),
                          w2\<lparr>stdout := stdout w2 @
                                [Prompt (CHR 0x0A # ''Press Enter to continue...'')]\<rparr>)
                 | l # ls \<Rightarrow> (None,
                          w2\<lparr>stdin := ls,
                             stdout := stdout w2 @
                                [Prompt (CHR 0x0A # ''Press Enter to continue...'')]\<rparr>)))"
  using assms(2,3)
  by (simp add: loop_body_def py_input_def split: option.splits list.splits)

lemma loop_body_exit_iff:
  "fst (loop_body self w) = Some (Raised (SystemExit c)) \<longleftrightarrow>
     (\<exists>t rest. stdin w = (''5'', t) # rest) \<and> c = 0"
proof (cases "stdin w")
  case Nil
  then show ?thesis
    by (simp add: loop_body_eof)
next
  case (Cons l rest)
  obtain choice t where l: "l = (choice, t)"
    by (cases l)
  obtain w1 where m: "display_menu w = (Inr (choice, t), w1)"
    using display_menu_line [OF Cons] l by simp
  obtain r w2 where d: "dispatch self choice w1 = (r, w2)"
    by (cases "dispatch self choice w1")
  have "fst (loop_body self w) = Some (Raised (SystemExit c)) \<longleftrightarrow> r = Some (Raised (SystemExit c))"
    using Cons l by (simp add: loop_body_line [OF _ m d] split: option.splits list.splits)
  with dispatch_exit [of self choice w1 c] d Cons l show ?thesis
    by auto
qed

lemma loop_body_exit:
  assumes "stdin w = (''5'', t) # rest"
  shows "loop_body self w =
           (Some (Raised (SystemExit 0)),
            print (CHR 0x0A # ''Take care! Goodbye!'') (snd (display_menu w)))"
  using assms
  by (simp add: loop_body_def display_menu_line [OF assms] dispatch_def)

lemma loop_body_invalid:
  assumes "choice \<notin> set [''1'', ''2'', ''3'', ''4'', ''5'']"
    and "stdin w = (choice, t) # l # rest"
  shows "loop_body self w =
           (None,
            (snd (display_menu w))
              \<lparr>stdin := rest,
               stdout := stdout (snd (display_menu w)) @
                 [Print invalid_choice, Prompt (CHR 0x0A # ''Press Enter to continue...'')]\<rparr>)"
  using assms(1)
  by (simp add: loop_body_def display_menu_line [OF assms(2)] dispatch_def py_input_def print_def)

lemma loop_body_keeps:
  "symptoms_db_file (snd (loop_body self w)) = symptoms_db_file w"
  "\<exists>pre. stdin w = pre @ stdin (snd (loop_body self w))"
  "health_log_file w = Some df \<Longrightarrow>
     \<exists>new. health_log_file (snd (loop_body self w)) = Some (df @ new)"
proof -
  show "symptoms_db_file (snd (loop_body self w)) = symptoms_db_file w"
  proof (cases "stdin w")
    case Nil
    then show ?thesis by (simp add: loop_body_eof)
  next
    case (Cons l rest)
    obtain choice t where l: "l = (choice, t)"
      by (cases l)
    obtain w1 where m: "display_menu w = (Inr (choice, t), w1)"
      and w1: "symptoms_db_file w1 = symptoms_db_file w"
      using display_menu_line [OF Cons] l by simp
    obtain r w2 where d: "dispatch self choice w1 = (r, w2)"
      by (cases "dispatch self choice w1")
    from dispatch_keeps(1) [of self choice w1] d w1
    have "symptoms_db_file w2 = symptoms_db_file w"
      by simp
    then show ?thesis
      using Cons l by (simp add: loop_body_line [OF _ m d] split: option.splits list.splits)
  qed
  show "\<exists>pre. stdin w = pre @ stdin (snd (loop_body self w))"
  proof (cases "stdin w")
    case Nil
    then show ?thesis by (simp add: loop_body_eof)
  next
    case (Cons l rest)
    obtain choice t where l: "l = (choice, t)"
      by (cases l)
    obtain w1 where m: "display_menu w = (Inr (choice, t), w1)"
      and w1: "stdin w1 = rest"
      using display_menu_line [OF Cons] l by simp
    obtain r w2 where d: "dispatch self choice w1 = (r, w2)"
      by (cases "dispatch self choice w1")
    from dispatch_keeps(2) [of w1 self choice] d w1
    obtain pre where "rest = pre @ stdin w2"
      by auto
    then show ?thesis
      using Cons l
      by (cases "stdin w2") (auto simp: loop_body_line [OF _ m d] split: option.splits)
  qed
  show "\<exists>new. health_log_file (snd (loop_body self w)) = Some (df @ new)"
    if log: "health_log_file w = Some df"
  proof (cases "stdin w")
    case Nil
    then show ?thesis using log by (simp add: loop_body_eof)
  next
    case (Cons l rest)
    obtain choice t where l: "l = (choice, t)"
      by (cases l)
    obtain w1 where m: "display_menu w = (Inr (choice, t), w1)"
      and w1: "health_log_file w1 = Some df"
      using display_menu_line [OF Cons] l log by simp
    obtain r w2 where d: "dispatch self choice w1 = (r, w2)"
      by (cases "dispatch self choice w1")
    from dispatch_log [OF w1, of self choice] d
    obtain new where "health_log_file w2 = Some (df @ new)"
      by auto
    then show ?thesis
      using Cons l by (simp add: loop_body_line [OF _ m d] split: option.splits list.splits)
  qed
qed

lemma run_stop: "loop_body self w = (Some s, w') \<Longrightarrow> run self w = (s, w')"
  by (subst run.simps) simp

lemma run_continue: "loop_body self w = (None, w') \<Longrightarrow> run self w = run self w'"
  by (subst run.simps) simp

lemma run_exit_consumes:
  "fst (run self w) = Raised (SystemExit c) \<Longrightarrow>
     c = 0 \<and> (\<exists>pre t. stdin w = pre @ (''5'', t) # stdin (snd (run self w)))"
proof (induction self w rule: run.induct)
  case (1 self w)
  obtain r w' where body: "loop_body self w = (r, w')"
    by (cases "loop_body self w")
  show ?case
  proof (cases r)
    case None
    with body have eq: "run self w = run self w'"
      by (simp add: run_continue)
    from "1.IH" body None "1.prems" eq
    obtain pre t where "c = 0" "stdin w' = pre @ (''5'', t) # stdin (snd (run self w'))"
      by fastforce
    moreover from loop_body_keeps(2) [of w self] body
    obtain pre' where "stdin w = pre' @ stdin w'"
      by auto
    ultimately show ?thesis
      using eq by auto
  next
    case (Some s)
    with body have eq: "run self w = (s, w')"
      by (simp add: run_stop)
    with "1.prems" have s: "s = Raised (SystemExit c)"
      by simp
    with body Some loop_body_exit_iff [of self w c]
    obtain t rest where w: "stdin w = (''5'', t) # rest" and c: "c = 0"
      by auto
    from loop_body_exit [OF w, of self] body display_menu_line [OF w]
    have "stdin w' = rest"
      by auto
    with w c eq show ?thesis
      by auto
  qed
qed


text \<open>The terminal only grows, and every pass of the loop begins with the menu.\<close>

lemma log_symptoms_stdout: "\<exists>more. stdout (snd (log_symptoms self w)) = stdout w @ more"
  by (auto simp: log_symptoms_def Let_def split_def fold_print py_input_def
      split: list.splits option.splits sum.splits)

lemma view_history_stdout: "\<exists>more. stdout (snd (view_history w)) = stdout w @ more"
  by (simp add: view_history_def split: option.splits)

lemma get_insights_stdout: "\<exists>more. stdout (snd (get_insights w)) = stdout w @ more"
  by (simp add: get_insights_def Let_def split_def fold_print split: option.splits)

lemma fold_stdout:
  assumes "\<And>x u. \<exists>more. stdout (g x u) = stdout u @ more"
  shows "\<exists>more. stdout (fold g xs w) = stdout w @ more"
proof (induction xs arbitrary: w)
  case Nil
  show ?case by simp
next
  case (Cons x xs)
  from assms [of x w] obtain m1 where "stdout (g x w) = stdout w @ m1"
    by blast
  moreover from Cons [of "g x w"] obtain m2 where "stdout (fold g xs (g x w)) = stdout (g x w) @ m2"
    by blast
  ultimately show ?case
    by simp
qed

lemma seasonal_illnesses_stdout: "\<exists>more. stdout (snd (seasonal_illnesses w)) = stdout w @ more"
proof -
  have "\<exists>more. stdout (fold (\<lambda>(season, illnesses) w'.
              fold (\<lambda>illness. print (''- '' @ illness)) illnesses
                (print (CHR 0x0A # season @ '':'') w')) seasonal_info v) = stdout v @ more" for v
    by (rule fold_stdout) (simp add: split_def fold_print)
  from this [of "print (CHR 0x0A # ''Common Seasonal Illnesses:'') w"] show ?thesis
    by (auto simp: seasonal_illnesses_def)
qed

lemma dispatch_stdout: "\<exists>more. stdout (snd (dispatch self choice w)) = stdout w @ more"
  using log_symptoms_stdout [of self w] view_history_stdout [of w] get_insights_stdout [of w]
    seasonal_illnesses_stdout [of w]
  by (simp add: dispatch_def)

lemma loop_body_stdout:
  "\<exists>more. stdout (snd (loop_body self w)) = stdout w @ menu_shown @ more"
proof (cases "stdin w")
  case Nil
  then show ?thesis
    by (simp add: loop_body_def display_menu_def py_input_def)
next
  case (Cons l rest)
  obtain choice t where l: "l = (choice, t)"
    by (cases l)
  obtain w1 where m: "display_menu w = (Inr (choice, t), w1)"
    and w1: "stdout w1 = stdout w @ menu_shown"
    using display_menu_line [OF Cons] l by simp
  obtain r w2 where d: "dispatch self choice w1 = (r, w2)"
    by (cases "dispatch self choice w1")
  from dispatch_stdout [of self choice w1] d w1
  obtain more where "stdout w2 = stdout w @ menu_shown @ more"
    by auto
  then show ?thesis
    using Cons l by (simp add: loop_body_line [OF _ m d] split: option.splits list.splits)
qed

lemma run_stdout: "\<exists>more. stdout (snd (run self w)) = stdout w @ menu_shown @ more"
proof (induction self w rule: run.induct)
  case (1 self w)
  obtain r w' where body: "loop_body self w = (r, w')"
    by (cases "loop_body self w")
  from loop_body_stdout [of self w] body
  obtain more where more: "stdout w' = stdout w @ menu_shown @ more"
    by auto
  show ?case
  proof (cases r)
    case None
    with body have eq: "run self w = run self w'"
      by (simp add: run_continue)
    from "1.IH" body None
    obtain more' where "stdout (snd (run self w')) = stdout w' @ menu_shown @ more'"
      by fastforce
    with eq more show ?thesis
      by simp
  next
    case (Some s)
    with body have "run self w = (s, w')"
      by (simp add: run_stop)
    with more show ?thesis
      by simp
  qed
qed

section \<open>Counting and averaging\<close>

lemma unique_set [simp]: "set (unique xs) = set xs" "distinct (unique xs)"
  by (simp_all add: unique_def)















lemma digit_char_facts:
  assumes "d < 10"
  shows "is_digit (digit_char d)" and "digit_val (digit_char d) = d"
proof -
  from assms have "d \<in> {0, 1, 2, 3, 4, 5, 6, 7, 8, 9}"
    by auto
  then show "is_digit (digit_char d)" and "digit_val (digit_char d) = d"
    by (auto simp: is_digit_def digit_char_def digit_val_def)
qed

lemma csv_digits_snoc: "csv_digits acc (xs @ [c]) = 10 * csv_digits acc xs + digit_val c"
  by (induction xs arbitrary: acc) simp_all

text \<open>\<open>str_nat\<close> writes a number in decimal notation.\<close>

lemma str_nat_decimal: "list_all is_digit (str_nat n) \<and> csv_digits 0 (str_nat n) = n"
proof (induction n rule: str_nat.induct)
  case (1 n)
  show ?case
  proof (cases "n < 10")
    case True
    then show ?thesis
      by (subst (1 2) str_nat.simps) (simp add: digit_char_facts)
  next
    case False
    with 1 have "list_all is_digit (str_nat (n div 10))" "csv_digits 0 (str_nat (n div 10)) = n div 10"
      by simp_all
    with False show ?thesis
      by (subst (1 2) str_nat.simps) (simp add: csv_digits_snoc digit_char_facts)
  qed
qed





section \<open>Symptom logging\<close>

text \<open>
  Claim C2, at the symptom number \<open>0\<close>, which is outside the displayed list \<open>1\<close> to \<open>4\<close>:
  on the default reference store and an empty log, \<open>log_symptoms\<close> does not print the
  error message and return; it asks for the severity and appends a row for
  \<open>stomach_ache\<close>, so that the log has one row more than before.
\<close>

theorem log_symptoms_zero_appends_row:
  "log_symptoms \<lparr>symptoms_db = default_symptoms_db\<rparr>
     \<lparr>health_log_file = Some [], symptoms_db_file = Some default_symptoms_db,
      stdin = [(''0'', \<lparr>year = 2024, month = 3, day = 9, hour = 7, minute = 5, second = 0\<rparr>),
               (''3'', \<lparr>year = 2024, month = 3, day = 9, hour = 7, minute = 5, second = 8\<rparr>)],
      stdout = []\<rparr>
   = (None,
      \<lparr>health_log_file =
         Some [\<lparr>date = ''2024-03-09 07:05:08'', symptoms = ''stomach_ache'', severity = ''3'',
                remedies_suggested = ''Avoid heavy foods; Try ginger tea; Stay hydrated''\<rparr>],
       symptoms_db_file = Some default_symptoms_db,
       stdin = [],
       stdout =
         [Print (CHR 0x0A # ''Available Symptoms:''), Print ''1. fever'', Print ''2. headache'',
          Print ''3. cold'', Print ''4. stomach_ache'',
          Prompt (CHR 0x0A # ''Enter symptom number: ''),
          Prompt ''Rate severity (1-5, where 5 is most severe): '',
          Print (CHR 0x0A # ''Suggested Remedies:''), Print ''- Avoid heavy foods'',
          Print ''- Try ginger tea'', Print ''- Stay hydrated'']\<rparr>)"
  by (simp add: log_symptoms_def default_symptoms_db_def py_input_def print_def py_int_eval
      py_getitem_def Let_def strftime_eval)

text \<open>
  Claim C10: with the default reference store of four entries, the symptom numbers \<open>0\<close>,
  \<open>-1\<close>, \<open>-2\<close> and \<open>-3\<close> do not abort. \<open>int\<close> accepts them, the index \<open>choice - 1\<close> is
  negative and counts from the end of the list of keys, so that \<open>0\<close> selects the last
  symptom \<open>stomach_ache\<close>, \<open>-1\<close> selects \<open>cold\<close>, \<open>-2\<close> \<open>headache\<close> and \<open>-3\<close> \<open>fever\<close>; a
  row for that symptom is appended to the log and no error message is printed.
\<close>

theorem log_symptoms_nonpositive_number_selects:
  assumes "symptoms_db self = default_symptoms_db"
    and "health_log_file w = Some df"
    and "stdin w = (c, t) # (sev, now) # rest"
    and "(c, name) \<in> set [(''0'', ''stomach_ache''), (''-1'', ''cold''),
                            (''-2'', ''headache''), (''-3'', ''fever'')]"
  shows "\<exists>n info.
           py_int c = Some n \<and> n - 1 < 0 \<and>
           py_getitem (map fst (symptoms_db self)) (n - 1) = Inr name \<and>
           map_of (symptoms_db self) name = Some info \<and>
           health_log_file (snd (log_symptoms self w)) =
             Some (df @ [\<lparr>date = strftime now, symptoms = name, severity = sev,
                          remedies_suggested = join ''; '' (remedies info)\<rparr>]) \<and>
           Print invalid_choice \<notin>
             set (drop (length (stdout w)) (stdout (snd (log_symptoms self w))))"
proof -
  from assms(4) consider
      "c = ''0''" "name = ''stomach_ache''"
    | "c = ''-1''" "name = ''cold''"
    | "c = ''-2''" "name = ''headache''"
    | "c = ''-3''" "name = ''fever''"
    by auto
  then show ?thesis
  proof cases
    case 1
    with assms(1-3) show ?thesis
      by (cases "py_int sev")
        (simp_all add: log_symptoms_def default_symptoms_db_def py_input_def py_int_eval
          py_getitem_def Let_def fold_print invalid_choice_def)
  next
    case 2
    with assms(1-3) show ?thesis
      by (cases "py_int sev")
        (simp_all add: log_symptoms_def default_symptoms_db_def py_input_def py_int_eval
          py_getitem_def Let_def fold_print invalid_choice_def)
  next
    case 3
    with assms(1-3) show ?thesis
      by (cases "py_int sev")
        (simp_all add: log_symptoms_def default_symptoms_db_def py_input_def py_int_eval
          py_getitem_def Let_def fold_print invalid_choice_def)
  next
    case 4
    with assms(1-3) show ?thesis
      by (cases "py_int sev")
        (simp_all add: log_symptoms_def default_symptoms_db_def py_input_def py_int_eval
          py_getitem_def Let_def fold_print invalid_choice_def)
  qed
qed

theorem log_symptoms_nonpositive_number_selects_witness:
  "\<exists>n info.
     py_int ''-3'' = Some n \<and> n - 1 < 0 \<and>
     py_getitem (map fst default_symptoms_db) (n - 1) = Inr ''fever'' \<and>
     map_of default_symptoms_db ''fever'' = Some info \<and>
     health_log_file (snd (log_symptoms \<lparr>symptoms_db = default_symptoms_db\<rparr>
        \<lparr>health_log_file = Some [], symptoms_db_file = None,
         stdin = [(''-3'', \<lparr>year = 2024, month = 3, day = 9, hour = 7, minute = 5, second = 0\<rparr>),
                  (''5'', \<lparr>year = 2024, month = 3, day = 9, hour = 7, minute = 5, second = 8\<rparr>)],
         stdout = []\<rparr>)) =
       Some [\<lparr>date = ''2024-03-09 07:05:08'', symptoms = ''fever'', severity = ''5'',
              remedies_suggested = join ''; '' (remedies info)\<rparr>]"
  using log_symptoms_nonpositive_number_selects
    [of "\<lparr>symptoms_db = default_symptoms_db\<rparr>"
        "\<lparr>health_log_file = Some [], symptoms_db_file = None,
         stdin = [(''-3'', \<lparr>year = 2024, month = 3, day = 9, hour = 7, minute = 5, second = 0\<rparr>),
                  (''5'', \<lparr>year = 2024, month = 3, day = 9, hour = 7, minute = 5, second = 8\<rparr>)],
         stdout = []\<rparr>"
        "[]" "''-3''" "\<lparr>year = 2024, month = 3, day = 9, hour = 7, minute = 5, second = 0\<rparr>"
        "''5''" "\<lparr>year = 2024, month = 3, day = 9, hour = 7, minute = 5, second = 8\<rparr>"
        "[]" "''fever''"]
  by (auto simp: strftime_eval)





section \<open>Initialization\<close>

text \<open>
  Claim C5: where no reference store exists, \<open>initialize_files\<close> writes the default
  store, and the bot loads it; the default store holds, in this order, \<open>fever\<close> (medium),
  \<open>headache\<close> (low), \<open>cold\<close> (low) and \<open>stomach_ache\<close> (medium), each with three remedies
  and an advisory; where no log exists, an empty log is written. Initializing a second
  time changes nothing, for \<open>initialize_files\<close> alone and for the whole of \<open>__init__\<close>.
\<close>

theorem initialize_files_defaults_idempotent:
  "(symptoms_db_file w = None \<longrightarrow>
      symptoms_db_file (initialize_files w) = Some default_symptoms_db \<and>
      fst (init w) = Inr \<lparr>symptoms_db = default_symptoms_db\<rparr>) \<and>
   map (\<lambda>(name, info). (name, severity_level info)) default_symptoms_db =
     [(''fever'', ''medium''), (''headache'', ''low''), (''cold'', ''low''),
      (''stomach_ache'', ''medium'')] \<and>
   (\<forall>(name, info) \<in> set default_symptoms_db.
      length (remedies info) = 3 \<and> seek_medical_attention info \<noteq> []) \<and>
   (health_log_file w = None \<longrightarrow> health_log_file (initialize_files w) = Some []) \<and>
   initialize_files (initialize_files w) = initialize_files w \<and>
   snd (init (snd (init w))) = snd (init w)"
  by (simp add: initialize_files_def init_def load_symptoms_database_def Let_def
      default_symptoms_db_def)

theorem initialize_files_defaults_idempotent_witness:
  "initialize_files \<lparr>health_log_file = None, symptoms_db_file = None, stdin = [], stdout = []\<rparr> =
     \<lparr>health_log_file = Some [], symptoms_db_file = Some default_symptoms_db,
      stdin = [], stdout = []\<rparr> \<and>
   initialize_files (initialize_files
     \<lparr>health_log_file = None, symptoms_db_file = None, stdin = [], stdout = []\<rparr>) =
     \<lparr>health_log_file = Some [], symptoms_db_file = Some default_symptoms_db,
      stdin = [], stdout = []\<rparr> \<and>
   map (\<lambda>(name, info). (name, severity_level info, length (remedies info)))
     default_symptoms_db =
     [(''fever'', ''medium'', 3), (''headache'', ''low'', 3), (''cold'', ''low'', 3),
      (''stomach_ache'', ''medium'', 3)]"
  using initialize_files_defaults_idempotent
    [of "\<lparr>health_log_file = None, symptoms_db_file = None, stdin = [], stdout = []\<rparr>"]
  by (simp add: initialize_files_def Let_def default_symptoms_db_def)

section \<open>The menu loop\<close>

text \<open>
  Claim C8: when the menu prompt reads \<open>5\<close>, the run ends with \<open>SystemExit(0)\<close>, that is
  exit status 0; after the menu only the goodbye line is printed, no further prompt is
  shown, the rest of the input is not read and the files are as before. A pass of the
  loop ends with \<open>SystemExit\<close> only when the menu prompt reads \<open>5\<close>; a run that ends
  with \<open>SystemExit\<close> has status 0 and the last line it read is a \<open>5\<close>.
\<close>

theorem option_5_exits:
  "(stdin w = (''5'', t) # rest \<longrightarrow>
      fst (run self w) = Raised (SystemExit 0) \<and> exit_code (SystemExit 0) = 0 \<and>
      stdin (snd (run self w)) = rest \<and>
      stdout (snd (run self w)) =
        stdout w @ menu_shown @ [Print (CHR 0x0A # ''Take care! Goodbye!'')] \<and>
      health_log_file (snd (run self w)) = health_log_file w \<and>
      symptoms_db_file (snd (run self w)) = symptoms_db_file w) \<and>
   (fst (loop_body self w) = Some (Raised (SystemExit c)) \<longrightarrow>
      c = 0 \<and> (\<exists>t rest. stdin w = (''5'', t) # rest)) \<and>
   (fst (run self w) = Raised (SystemExit c) \<longrightarrow>
      c = 0 \<and> (\<exists>pre t. stdin w = pre @ (''5'', t) # stdin (snd (run self w))))"
proof (intro conjI impI)
  assume w: "stdin w = (''5'', t) # rest"
  have run: "run self w =
      (Raised (SystemExit 0), print (CHR 0x0A # ''Take care! Goodbye!'') (snd (display_menu w)))"
    by (rule run_stop) (rule loop_body_exit [OF w])
  show "fst (run self w) = Raised (SystemExit 0)"
    by (simp add: run)
  show "exit_code (SystemExit 0) = 0"
    by simp
  show "stdin (snd (run self w)) = rest"
    by (simp add: run display_menu_line [OF w])
  show "stdout (snd (run self w)) =
          stdout w @ menu_shown @ [Print (CHR 0x0A # ''Take care! Goodbye!'')]"
    by (simp add: run display_menu_line [OF w])
  show "health_log_file (snd (run self w)) = health_log_file w"
    by (simp add: run display_menu_line [OF w])
  show "symptoms_db_file (snd (run self w)) = symptoms_db_file w"
    by (simp add: run display_menu_line [OF w])
next
  assume "fst (loop_body self w) = Some (Raised (SystemExit c))"
  then show "c = 0" and "\<exists>t rest. stdin w = (''5'', t) # rest"
    by (simp_all add: loop_body_exit_iff)
next
  assume "fst (run self w) = Raised (SystemExit c)"
  then show "c = 0" and "\<exists>pre t. stdin w = pre @ (''5'', t) # stdin (snd (run self w))"
    using run_exit_consumes [of self w c] by simp_all
qed

theorem option_5_exits_witness:
  "fst (run \<lparr>symptoms_db = default_symptoms_db\<rparr>
          \<lparr>health_log_file = Some [], symptoms_db_file = Some default_symptoms_db,
           stdin = [(''5'', \<lparr>year = 2024, month = 3, day = 9, hour = 7, minute = 5, second = 0\<rparr>),
                    (''1'', \<lparr>year = 2024, month = 3, day = 9, hour = 7, minute = 5, second = 8\<rparr>)],
           stdout = []\<rparr>) = Raised (SystemExit 0) \<and>
   stdin (snd (run \<lparr>symptoms_db = default_symptoms_db\<rparr>
          \<lparr>health_log_file = Some [], symptoms_db_file = Some default_symptoms_db,
           stdin = [(''5'', \<lparr>year = 2024, month = 3, day = 9, hour = 7, minute = 5, second = 0\<rparr>),
                    (''1'', \<lparr>year = 2024, month = 3, day = 9, hour = 7, minute = 5, second = 8\<rparr>)],
           stdout = []\<rparr>)) =
     [(''1'', \<lparr>year = 2024, month = 3, day = 9, hour = 7, minute = 5, second = 8\<rparr>)] \<and>
   stdout (snd (run \<lparr>symptoms_db = default_symptoms_db\<rparr>
          \<lparr>health_log_file = Some [], symptoms_db_file = Some default_symptoms_db,
           stdin = [(''5'', \<lparr>year = 2024, month = 3, day = 9, hour = 7, minute = 5, second = 0\<rparr>),
                    (''1'', \<lparr>year = 2024, month = 3, day = 9, hour = 7, minute = 5, second = 8\<rparr>)],
           stdout = []\<rparr>)) = menu_shown @ [Print (CHR 0x0A # ''Take care! Goodbye!'')]"
  using option_5_exits
    [of "\<lparr>health_log_file = Some [], symptoms_db_file = Some default_symptoms_db,
           stdin = [(''5'', \<lparr>year = 2024, month = 3, day = 9, hour = 7, minute = 5, second = 0\<rparr>),
                    (''1'', \<lparr>year = 2024, month = 3, day = 9, hour = 7, minute = 5, second = 8\<rparr>)],
           stdout = []\<rparr>"
        "\<lparr>year = 2024, month = 3, day = 9, hour = 7, minute = 5, second = 0\<rparr>"
        "[(''1'', \<lparr>year = 2024, month = 3, day = 9, hour = 7, minute = 5, second = 8\<rparr>)]"
        "\<lparr>symptoms_db = default_symptoms_db\<rparr>" 0]
  by simp

text \<open>
  Claim C9: when the menu prompt reads a line other than \<open>1\<close> to \<open>5\<close>, and a line
  follows for the prompt \<open>Press Enter to continue...\<close>, the pass of the loop reaches its
  end without an exception: it prints the error message after the menu, leaves both
  files as they were, calls no method, and the run goes on with the next pass, which
  shows the menu and its prompt again.
\<close>

theorem invalid_menu_choice_stays:
  assumes "choice \<notin> set [''1'', ''2'', ''3'', ''4'', ''5'']"
    and "stdin w = (choice, t) # l # rest"
  shows "\<exists>w'. loop_body self w = (None, w') \<and>
           health_log_file w' = health_log_file w \<and>
           symptoms_db_file w' = symptoms_db_file w \<and>
           stdin w' = rest \<and>
           stdout w' = stdout w @ menu_shown @
             [Print invalid_choice, Prompt (CHR 0x0A # ''Press Enter to continue...'')] \<and>
           run self w = run self w' \<and>
           (\<exists>more. stdout (snd (run self w)) = stdout w' @ menu_shown @ more)"
proof -
  let ?w' = "(snd (display_menu w))
              \<lparr>stdin := rest,
               stdout := stdout (snd (display_menu w)) @
                 [Print invalid_choice, Prompt (CHR 0x0A # ''Press Enter to continue...'')]\<rparr>"
  have body: "loop_body self w = (None, ?w')"
    by (rule loop_body_invalid [OF assms])
  then have run: "run self w = run self ?w'"
    by (rule run_continue)
  from run_stdout [of self ?w'] run
  have "\<exists>more. stdout (snd (run self w)) = stdout ?w' @ menu_shown @ more"
    by simp
  with body run show ?thesis
    by (intro exI [of _ ?w']) (simp add: display_menu_line [OF assms(2)])
qed

theorem invalid_menu_choice_stays_witness:
  "''9'' \<notin> set [''1'', ''2'', ''3'', ''4'', ''5''] \<and>
   (\<exists>w'. loop_body \<lparr>symptoms_db = default_symptoms_db\<rparr>
          \<lparr>health_log_file = Some [], symptoms_db_file = Some default_symptoms_db,
           stdin = [(''9'', \<lparr>year = 2024, month = 3, day = 9, hour = 7, minute = 5, second = 0\<rparr>),
                    ('''', \<lparr>year = 2024, month = 3, day = 9, hour = 7, minute = 5, second = 8\<rparr>)],
           stdout = []\<rparr> = (None, w') \<and>
         health_log_file w' = Some [] \<and> stdin w' = [] \<and>
         stdout w' = menu_shown @
           [Print invalid_choice, Prompt (CHR 0x0A # ''Press Enter to continue...'')])"
  using invalid_menu_choice_stays
    [of "''9''"
        "\<lparr>health_log_file = Some [], symptoms_db_file = Some default_symptoms_db,
           stdin = [(''9'', \<lparr>year = 2024, month = 3, day = 9, hour = 7, minute = 5, second = 0\<rparr>),
                    ('''', \<lparr>year = 2024, month = 3, day = 9, hour = 7, minute = 5, second = 8\<rparr>)],
           stdout = []\<rparr>"
        "\<lparr>year = 2024, month = 3, day = 9, hour = 7, minute = 5, second = 0\<rparr>"
        "('''', \<lparr>year = 2024, month = 3, day = 9, hour = 7, minute = 5, second = 8\<rparr>)"
        "[]" "\<lparr>symptoms_db = default_symptoms_db\<rparr>"]
  by auto

section \<open>Errors in the input\<close>

text \<open>
  Claim C1, at the severity text \<open>abc\<close>: started where neither file exists, with the
  input lines \<open>1\<close> (log new symptoms), \<open>1\<close> (fever) and \<open>abc\<close>, the program is ended by
  the \<open>ValueError\<close> of \<open>int(severity)\<close>, with exit status 1 and not by option 5: the
  lines that follow, among them a \<open>5\<close>, are never read. The row with the severity \<open>abc\<close>
  has been written to the log before.
\<close>

theorem non_numeric_severity_ends_process:
  "fst (main \<lparr>health_log_file = None, symptoms_db_file = None,
          stdin = [(''1'', \<lparr>year = 2024, month = 3, day = 9, hour = 7, minute = 5, second = 0\<rparr>),
                   (''1'', \<lparr>year = 2024, month = 3, day = 9, hour = 7, minute = 5, second = 4\<rparr>),
                   (''abc'', \<lparr>year = 2024, month = 3, day = 9, hour = 7, minute = 5, second = 8\<rparr>),
                   ('''', \<lparr>year = 2024, month = 3, day = 9, hour = 7, minute = 5, second = 9\<rparr>),
                   (''5'', \<lparr>year = 2024, month = 3, day = 9, hour = 7, minute = 5, second = 9\<rparr>)],
          stdout = []\<rparr>) = Raised ValueError \<and>
   exit_code ValueError = 1 \<and>
   stdin (snd (main \<lparr>health_log_file = None, symptoms_db_file = None,
          stdin = [(''1'', \<lparr>year = 2024, month = 3, day = 9, hour = 7, minute = 5, second = 0\<rparr>),
                   (''1'', \<lparr>year = 2024, month = 3, day = 9, hour = 7, minute = 5, second = 4\<rparr>),
                   (''abc'', \<lparr>year = 2024, month = 3, day = 9, hour = 7, minute = 5, second = 8\<rparr>),
                   ('''', \<lparr>year = 2024, month = 3, day = 9, hour = 7, minute = 5, second = 9\<rparr>),
                   (''5'', \<lparr>year = 2024, month = 3, day = 9, hour = 7, minute = 5, second = 9\<rparr>)],
          stdout = []\<rparr>)) =
     [('''', \<lparr>year = 2024, month = 3, day = 9, hour = 7, minute = 5, second = 9\<rparr>),
      (''5'', \<lparr>year = 2024, month = 3, day = 9, hour = 7, minute = 5, second = 9\<rparr>)] \<and>
   health_log_file (snd (main \<lparr>health_log_file = None, symptoms_db_file = None,
          stdin = [(''1'', \<lparr>year = 2024, month = 3, day = 9, hour = 7, minute = 5, second = 0\<rparr>),
                   (''1'', \<lparr>year = 2024, month = 3, day = 9, hour = 7, minute = 5, second = 4\<rparr>),
                   (''abc'', \<lparr>year = 2024, month = 3, day = 9, hour = 7, minute = 5, second = 8\<rparr>),
                   ('''', \<lparr>year = 2024, month = 3, day = 9, hour = 7, minute = 5, second = 9\<rparr>),
                   (''5'', \<lparr>year = 2024, month = 3, day = 9, hour = 7, minute = 5, second = 9\<rparr>)],
          stdout = []\<rparr>)) =
     Some [\<lparr>date = ''2024-03-09 07:05:08'', symptoms = ''fever'', severity = ''abc'',
            remedies_suggested =
              ''Rest well; Stay hydrated; Take paracetamol if temperature is high''\<rparr>]"
proof -
  let ?w = "\<lparr>health_log_file = None, symptoms_db_file = None,
          stdin = [(''1'', \<lparr>year = 2024, month = 3, day = 9, hour = 7, minute = 5, second = 0\<rparr>),
                   (''1'', \<lparr>year = 2024, month = 3, day = 9, hour = 7, minute = 5, second = 4\<rparr>),
                   (''abc'', \<lparr>year = 2024, month = 3, day = 9, hour = 7, minute = 5, second = 8\<rparr>),
                   ('''', \<lparr>year = 2024, month = 3, day = 9, hour = 7, minute = 5, second = 9\<rparr>),
                   (''5'', \<lparr>year = 2024, month = 3, day = 9, hour = 7, minute = 5, second = 9\<rparr>)],
          stdout = []\<rparr>"
  let ?w1 = "initialize_files ?w"
  have init: "init ?w = (Inr \<lparr>symptoms_db = default_symptoms_db\<rparr>, ?w1)"
    by (simp add: init_def initialize_files_def load_symptoms_database_def Let_def)
  have w1: "?w1 = ?w\<lparr>health_log_file := Some [], symptoms_db_file := Some default_symptoms_db\<rparr>"
    by (simp add: initialize_files_def Let_def)
  have body: "fst (loop_body \<lparr>symptoms_db = default_symptoms_db\<rparr> ?w1) = Some (Raised ValueError)"
    "stdin (snd (loop_body \<lparr>symptoms_db = default_symptoms_db\<rparr> ?w1)) =
       [('''', \<lparr>year = 2024, month = 3, day = 9, hour = 7, minute = 5, second = 9\<rparr>),
        (''5'', \<lparr>year = 2024, month = 3, day = 9, hour = 7, minute = 5, second = 9\<rparr>)]"
    "health_log_file (snd (loop_body \<lparr>symptoms_db = default_symptoms_db\<rparr> ?w1)) =
       Some [\<lparr>date = ''2024-03-09 07:05:08'', symptoms = ''fever'', severity = ''abc'',
            remedies_suggested =
              ''Rest well; Stay hydrated; Take paracetamol if temperature is high''\<rparr>]"
    unfolding w1
    by (simp_all add: loop_body_def display_menu_def dispatch_def log_symptoms_def
        default_symptoms_db_def py_input_def py_int_eval py_getitem_def Let_def fold_print
        strftime_eval)
  obtain w' where "loop_body \<lparr>symptoms_db = default_symptoms_db\<rparr> ?w1 = (Some (Raised ValueError), w')"
    using body(1) by (cases "loop_body \<lparr>symptoms_db = default_symptoms_db\<rparr> ?w1") simp
  then have "run \<lparr>symptoms_db = default_symptoms_db\<rparr> ?w1 =
      (Raised ValueError, snd (loop_body \<lparr>symptoms_db = default_symptoms_db\<rparr> ?w1))"
    by (simp add: run_stop)
  with init body show ?thesis
    by (simp add: main_def)
qed

section \<open>Insights\<close>





end
